theory Spec2Isabelle
  imports Complex_Main "HOL-Library.Sublist" "HOL-Library.Product_Lexorder" "HOL-Library.Multiset"
begin

section \<open>Strings as Python sees them\<close>

text \<open>
  Python strings are modelled as \<^typ>\<open>string\<close> (lists of characters). Case mapping and
  whitespace are those of the ASCII range; every name, keyword and tag of the program is ASCII.
\<close>

definition lower_char :: "char \<Rightarrow> char" where
  "lower_char c = (let n = (of_char c :: nat) in if 65 \<le> n \<and> n \<le> 90 then char_of (n + 32) else c)"

definition upper_char :: "char \<Rightarrow> char" where
  "upper_char c = (let n = (of_char c :: nat) in if 97 \<le> n \<and> n \<le> 122 then char_of (n - 32) else c)"

text \<open>\<open>str.lower()\<close>.\<close>

definition lower :: "string \<Rightarrow> string" where
  "lower s = map lower_char s"

text \<open>The characters \<open>str.strip()\<close> removes: tab, line feed, vertical tab, form feed,
  carriage return, the four separators 0x1C..0x1F and the space.\<close>

definition py_isspace :: "char \<Rightarrow> bool" where
  "py_isspace c = (let n = (of_char c :: nat) in (9 \<le> n \<and> n \<le> 13) \<or> (28 \<le> n \<and> n \<le> 32))"

text \<open>\<open>str.strip()\<close>.\<close>

definition strip :: "string \<Rightarrow> string" where
  "strip s = rev (dropWhile py_isspace (rev (dropWhile py_isspace s)))"

text \<open>\<open>pat in s\<close> on strings: \<open>pat\<close> occurs in \<open>s\<close> as a contiguous substring.\<close>

fun str_in :: "string \<Rightarrow> string \<Rightarrow> bool" where
  "str_in pat [] = (pat = [])"
| "str_in pat (c # cs) = (prefix pat (c # cs) \<or> str_in pat cs)"

text \<open>\<open>any(p(x) for x in xs)\<close>.\<close>

primrec py_any :: "('a \<Rightarrow> bool) \<Rightarrow> 'a list \<Rightarrow> bool" where
  "py_any p [] = False"
| "py_any p (x # xs) = (p x \<or> py_any p xs)"

text \<open>\<open>s.replace(old, new)\<close>: every occurrence of \<open>old\<close>, found from left to right without
  overlap, is replaced by \<open>new\<close>. For the empty pattern Python puts \<open>new\<close> before every
  character and at the end.\<close>

function str_replace :: "string \<Rightarrow> string \<Rightarrow> string \<Rightarrow> string" where
  "str_replace old new [] = (if old = [] then new else [])"
| "str_replace old new (c # cs) =
     (if old = [] then new @ c # str_replace old new cs
      else if prefix old (c # cs)
      then new @ str_replace old new (drop (length old) (c # cs))
      else c # str_replace old new cs)"
  by pat_completeness auto
termination
  by (relation "measure (\<lambda>(old, new, s). length s)") (auto simp: Suc_le_eq)


section \<open>Name helpers of \<open>ingredients.py\<close>\<close>

datatype error = IndexError

text \<open>\<open>get_functional_tags\<close>: the set of role tags of an ingredient name.\<close>

definition get_functional_tags :: "string \<Rightarrow> string set" where
  "get_functional_tags ingredient_name =
     (let name_lower = lower ingredient_name;
          tags0 = {};
          tags1 = (if py_any (\<lambda>word. str_in word name_lower)
                        [''chicken'', ''turkey'', ''fish'', ''pork'', ''beef'', ''lamb'', ''egg'', ''tofu'', ''seitan'']
                   then insert ''Protein'' tags0 else tags0);
          tags2 = (if py_any (\<lambda>word. str_in word name_lower)
                        [''rice'', ''flour'', ''pasta'', ''noodle'', ''bread'', ''oats'', ''potato'', ''quinoa'', ''starch'']
                   then insert ''Starch'' tags1 else tags1);
          tags3 = (if py_any (\<lambda>word. str_in word name_lower)
                        [''oil'', ''butter'', ''cream'', ''cheese'', ''fat'', ''margarine'']
                   then insert ''Fat/Dairy'' tags2 else tags2);
          tags4 = (if py_any (\<lambda>word. str_in word name_lower)
                        [''tomato'', ''onion'', ''garlic'', ''carrot'', ''pepper'', ''broccoli'', ''spinach'', ''fruit'']
                   then insert ''Produce'' tags3 else tags3)
      in if tags4 = {} then insert ''Other'' tags4 else tags4)"

definition replacements :: "string list" where
  "replacements = [''raw'', ''unprepared'', ''prepared'', ''unenriched'', ''cooked'', ''generic'',
                   ''canned'', ''usda'', ''frozen'']"

text \<open>One round of the loop of \<open>clean_ingredient_name\<close>: the three chained \<open>replace\<close> calls
  for one term.\<close>

definition strip_term :: "string \<Rightarrow> string \<Rightarrow> string" where
  "strip_term cleaned_name term =
     str_replace ('','' @ term) ''''
       (str_replace ('' '' @ term) '''' (str_replace ('', '' @ term) '''' cleaned_name))"

text \<open>\<open>clean_ingredient_name\<close>. Indexing the empty string raises \<open>IndexError\<close>;
  \<open>split(',')[0]\<close> is the part before the first comma.\<close>

definition clean_ingredient_name :: "string \<Rightarrow> error + string" where
  "clean_ingredient_name name =
     (case foldl strip_term (strip name) replacements of
        [] \<Rightarrow> Inl IndexError
      | c # rest \<Rightarrow> Inr (strip (takeWhile (\<lambda>x. x \<noteq> CHR '','') (upper_char c # strip rest))))"


section \<open>The meal combination engine of \<open>ingredients.py\<close>\<close>

text \<open>
  An ingredient is the dictionary the engine reads. Quantities are Python floats; they are
  modelled as exact rationals, so sums and comparisons are those of the mathematical values.
  \<open>allergy_tags\<close> is read with \<open>get(..., [])\<close> and may be absent; \<open>functional_tags\<close> is
  absent until the engine writes it.
\<close>

record ingredient =
  name :: string
  cost_per_100g :: rat
  protein_g :: rat
  carbs_g :: rat
  fat_g :: rat
  allergy_tags :: "string list option"
  functional_tags :: "string set option"

record meal =
  ingredients :: "string list"
  total_cost :: rat
  total_protein_g :: rat
  total_fat_g :: rat
  num_ingredients :: int
  diversity_score :: nat

text \<open>\<open>round(x, n)\<close>: the nearest multiple of \<open>10^-n\<close>, a tie going to the even one.\<close>

definition py_round :: "rat \<Rightarrow> nat \<Rightarrow> rat" where
  "py_round x n =
     (let q = x * 10 ^ n;
          f = \<lfloor>q\<rfloor>;
          d = q - of_int f;
          r = (if d < 1 / 2 then f else if 1 / 2 < d then f + 1 else if even f then f else f + 1)
      in of_int r / 10 ^ n)"

text \<open>\<open>itertools.combinations(xs, r)\<close>: the \<open>r\<close>-element selections of \<open>xs\<close>, in the
  lexicographic order of their positions.\<close>

fun combinations :: "'a list \<Rightarrow> nat \<Rightarrow> 'a list list" where
  "combinations xs 0 = [[]]"
| "combinations [] (Suc r) = []"
| "combinations (x # xs) (Suc r) = map ((#) x) (combinations xs r) @ combinations xs (Suc r)"

text \<open>Step 1, the test of the safety filter:
  \<open>not any(tag in excluded_tags for tag in ingredient.get("allergy_tags", []))\<close>.\<close>

definition is_safe :: "string list \<Rightarrow> ingredient \<Rightarrow> bool" where
  "is_safe excluded_tags ingredient =
     (\<not> py_any (\<lambda>tag. tag \<in> set excluded_tags)
            (case allergy_tags ingredient of None \<Rightarrow> [] | Some ts \<Rightarrow> ts))"

definition attach_tags :: "ingredient \<Rightarrow> ingredient" where
  "attach_tags ingredient =
     ingredient\<lparr>functional_tags := Some (get_functional_tags (name ingredient))\<rparr>"

text \<open>Step 1 as a whole. The first component is the caller's list \<open>data\<close> as the loop leaves
  it (the records are updated in place), the second is \<open>safe_ingredients\<close>.\<close>

fun safety_filter :: "ingredient list \<Rightarrow> string list \<Rightarrow> ingredient list \<times> ingredient list" where
  "safety_filter [] excluded_tags = ([], [])"
| "safety_filter (ingredient # rest) excluded_tags =
     (let (data', safe_ingredients) = safety_filter rest excluded_tags
      in if is_safe excluded_tags ingredient
         then (attach_tags ingredient # data', attach_tags ingredient # safe_ingredients)
         else (ingredient # data', safe_ingredients))"

text \<open>\<open>item['functional_tags']\<close>. The key is present on every member of
  \<open>safe_ingredients\<close> (lemma \<open>safety_filter_tagged\<close>), so the lookup never fails there.\<close>

definition tags_of :: "ingredient \<Rightarrow> string set" where
  "tags_of item = (case functional_tags item of Some ts \<Rightarrow> ts | None \<Rightarrow> {})"

text \<open>The inner loop over a combination (Rule A). The arguments are the members still to
  visit, \<open>macro_tags_in_combo\<close> and \<open>functional_tags_in_combo\<close>; the result is
  \<open>is_duplicate\<close> with \<open>functional_tags_in_combo\<close> as the loop leaves them. A \<open>break\<close> ends
  the walk.\<close>

fun role_walk :: "ingredient list \<Rightarrow> string set \<Rightarrow> string set \<Rightarrow> bool \<times> string set" where
  "role_walk [] macro_tags functional = (False, functional)"
| "role_walk (item # rest) macro_tags functional =
     (if ''Starch'' \<in> tags_of item
      then (if ''Starch'' \<in> macro_tags then (True, functional)
            else role_walk rest (insert ''Starch'' macro_tags) (functional \<union> tags_of item))
      else if ''Protein'' \<in> tags_of item
      then (if ''Protein'' \<in> macro_tags then (True, functional)
            else role_walk rest (insert ''Protein'' macro_tags) (functional \<union> tags_of item))
      else role_walk rest macro_tags (functional \<union> tags_of item))"

definition sum_cost :: "ingredient list \<Rightarrow> rat" where
  "sum_cost combo = sum_list (map cost_per_100g combo)"

definition sum_protein :: "ingredient list \<Rightarrow> rat" where
  "sum_protein combo = sum_list (map protein_g combo)"

definition sum_fat :: "ingredient list \<Rightarrow> rat" where
  "sum_fat combo = sum_list (map fat_g combo)"

text \<open>The tests a combination passes before a meal is built from it: Rule A, Rule B and
  the three thresholds.\<close>

definition survives :: "rat \<Rightarrow> rat \<Rightarrow> rat \<Rightarrow> ingredient list \<Rightarrow> bool" where
  "survives max_cost min_protein max_fat combo =
     (case role_walk combo {} {} of
        (is_duplicate, functional) \<Rightarrow>
          \<not> is_duplicate \<and> \<not> card functional < 2 \<and>
          sum_cost combo \<le> max_cost \<and> min_protein \<le> sum_protein combo \<and> sum_fat combo \<le> max_fat)"

text \<open>The list comprehension over the names of a combination; the first failing name
  ends it.\<close>

fun clean_names :: "ingredient list \<Rightarrow> error + string list" where
  "clean_names [] = Inr []"
| "clean_names (item # rest) =
     (case clean_ingredient_name (name item) of
        Inl e \<Rightarrow> Inl e
      | Inr n \<Rightarrow> (case clean_names rest of Inl e \<Rightarrow> Inl e | Inr ns \<Rightarrow> Inr (n # ns)))"

text \<open>The dictionary appended to \<open>valid_meals\<close> for a surviving combination.\<close>

definition make_meal :: "int \<Rightarrow> ingredient list \<Rightarrow> string list \<Rightarrow> meal" where
  "make_meal num combo names =
     \<lparr>ingredients = names,
      total_cost = py_round (sum_cost combo) 2,
      total_protein_g = py_round (sum_protein combo) 1,
      total_fat_g = py_round (sum_fat combo) 1,
      num_ingredients = num,
      diversity_score = card (snd (role_walk combo {} {}))\<rparr>"

text \<open>The body of the two nested loops for one combination: nothing is appended
  (\<open>None\<close>), a meal is appended, or the name cleaner raises.\<close>

definition visit :: "rat \<Rightarrow> rat \<Rightarrow> rat \<Rightarrow> int \<times> ingredient list \<Rightarrow> error + meal option" where
  "visit max_cost min_protein max_fat entry =
     (case entry of (num, combo) \<Rightarrow>
        if survives max_cost min_protein max_fat combo
        then (case clean_names combo of Inl e \<Rightarrow> Inl e | Inr names \<Rightarrow> Inr (Some (make_meal num combo names)))
        else Inr None)"

text \<open>The combinations in the order the loops visit them: sizes \<open>2 .. max_ingredients\<close>,
  each size in the order of \<open>itertools.combinations\<close>.\<close>

definition candidates :: "ingredient list \<Rightarrow> int \<Rightarrow> (int \<times> ingredient list) list" where
  "candidates safe_ingredients max_ingredients =
     concat (map (\<lambda>num. map (Pair num) (combinations safe_ingredients (nat num))) [2..max_ingredients])"

text \<open>Running the loops: \<open>valid_meals\<close> in the order of appending, or the first error.\<close>

fun collect :: "rat \<Rightarrow> rat \<Rightarrow> rat \<Rightarrow> (int \<times> ingredient list) list \<Rightarrow> error + meal list" where
  "collect max_cost min_protein max_fat [] = Inr []"
| "collect max_cost min_protein max_fat (entry # rest) =
     (case visit max_cost min_protein max_fat entry of
        Inl e \<Rightarrow> Inl e
      | Inr found \<Rightarrow>
          (case collect max_cost min_protein max_fat rest of
             Inl e \<Rightarrow> Inl e
           | Inr meals \<Rightarrow> Inr (case found of None \<Rightarrow> meals | Some m \<Rightarrow> m # meals)))"

text \<open>The sort key \<open>(-diversity_score, -total_protein_g, total_cost)\<close>; tuples compare
  lexicographically.\<close>

definition rank_key :: "meal \<Rightarrow> int \<times> rat \<times> rat" where
  "rank_key m = (- int (diversity_score m), - total_protein_g m, total_cost m)"

text \<open>\<open>find_best_meal\<close>. The result pairs the caller's list after the call with what the
  call returns: an error raised, \<open>None\<close>, or the list of at most five meals. \<open>list.sort\<close> is
  stable, as \<^const>\<open>sort_key\<close> is.\<close>

definition find_best_meal ::
  "ingredient list \<Rightarrow> rat \<Rightarrow> rat \<Rightarrow> rat \<Rightarrow> string list \<Rightarrow> int
     \<Rightarrow> ingredient list \<times> (error + meal list option)" where
  "find_best_meal data max_cost min_protein max_fat excluded_tags max_ingredients =
     (case safety_filter data excluded_tags of
        (data', safe_ingredients) \<Rightarrow>
          (data',
           case collect max_cost min_protein max_fat (candidates safe_ingredients max_ingredients) of
             Inl e \<Rightarrow> Inl e
           | Inr valid_meals \<Rightarrow>
               Inr (if valid_meals = [] then None
                    else Some (take 5 (sort_key rank_key valid_meals)))))"

text \<open>The four-ingredient catalog of the specification's example.\<close>

definition example_catalog :: "ingredient list" where
  "example_catalog =
     [\<lparr>name = ''Rice'', cost_per_100g = 10 / 100, protein_g = 71 / 10, carbs_g = 80, fat_g = 7 / 10,
       allergy_tags = Some [], functional_tags = None\<rparr>,
      \<lparr>name = ''Egg'', cost_per_100g = 25 / 100, protein_g = 126 / 10, carbs_g = 11 / 10, fat_g = 95 / 10,
       allergy_tags = Some [''egg''], functional_tags = None\<rparr>,
      \<lparr>name = ''Chicken'', cost_per_100g = 75 / 100, protein_g = 31, carbs_g = 0, fat_g = 36 / 10,
       allergy_tags = Some [''poultry'', ''meat''], functional_tags = None\<rparr>,
      \<lparr>name = ''Tomato'', cost_per_100g = 8 / 100, protein_g = 9 / 10, carbs_g = 39 / 10, fat_g = 2 / 10,
       allergy_tags = Some [], functional_tags = None\<rparr>]"

text \<open>Two ingredients that both carry the Protein tag, the first carrying Starch as well.\<close>

definition two_protein_catalog :: "ingredient list" where
  "two_protein_catalog =
     [\<lparr>name = ''Chicken Fried Rice'', cost_per_100g = 50 / 100, protein_g = 10, carbs_g = 30, fat_g = 5,
       allergy_tags = Some [''poultry''], functional_tags = None\<rparr>,
      \<lparr>name = ''Egg'', cost_per_100g = 25 / 100, protein_g = 126 / 10, carbs_g = 11 / 10, fat_g = 95 / 10,
       allergy_tags = Some [''egg''], functional_tags = None\<rparr>]"


text \<open>An ingredient whose name is only a noise fragment, next to rice.\<close>

definition noise_name_catalog :: "ingredient list" where
  "noise_name_catalog =
     [\<lparr>name = '', raw'', cost_per_100g = 20 / 100, protein_g = 20, carbs_g = 0, fat_g = 1,
       allergy_tags = None, functional_tags = None\<rparr>,
      \<lparr>name = ''Rice'', cost_per_100g = 10 / 100, protein_g = 71 / 10, carbs_g = 80, fat_g = 7 / 10,
       allergy_tags = Some [], functional_tags = None\<rparr>]"

text \<open>What the engine returns on the example catalog with \<open>max_cost = 1.0\<close>,
  \<open>min_protein = 15\<close>, \<open>max_fat = 15\<close>, nothing excluded and \<open>max_ingredients = 3\<close>.\<close>

definition example_result :: "meal list" where
  "example_result =
     [\<lparr>ingredients = [''Rice'', ''Chicken'', ''Tomato''], total_cost = 93 / 100, total_protein_g = 39,
       total_fat_g = 45 / 10, num_ingredients = 3, diversity_score = 3\<rparr>,
      \<lparr>ingredients = [''Rice'', ''Egg'', ''Tomato''], total_cost = 43 / 100, total_protein_g = 206 / 10,
       total_fat_g = 104 / 10, num_ingredients = 3, diversity_score = 3\<rparr>,
      \<lparr>ingredients = [''Rice'', ''Chicken''], total_cost = 85 / 100, total_protein_g = 381 / 10,
       total_fat_g = 43 / 10, num_ingredients = 2, diversity_score = 2\<rparr>,
      \<lparr>ingredients = [''Chicken'', ''Tomato''], total_cost = 83 / 100, total_protein_g = 319 / 10,
       total_fat_g = 38 / 10, num_ingredients = 2, diversity_score = 2\<rparr>,
      \<lparr>ingredients = [''Rice'', ''Egg''], total_cost = 35 / 100, total_protein_g = 197 / 10,
       total_fat_g = 102 / 10, num_ingredients = 2, diversity_score = 2\<rparr>]"

text \<open>The names of the first-ranked meal of a result (none when there is no meal).\<close>

fun top_ingredients :: "error + meal list option \<Rightarrow> string list" where
  "top_ingredients (Inr (Some (m # ms))) = ingredients m"
| "top_ingredients other = []"

text \<open>The ranking the specification words: meal \<open>a\<close> may stand before meal \<open>b\<close> when it has
  the higher diversity score, or the same score and more protein, or the same score and
  protein and a cost that is not higher.\<close>

definition ranked_before :: "meal \<Rightarrow> meal \<Rightarrow> bool" where
  "ranked_before a b =
     (diversity_score b < diversity_score a \<or>
      (diversity_score a = diversity_score b \<and>
       (total_protein_g b < total_protein_g a \<or>
        (total_protein_g a = total_protein_g b \<and> total_cost a \<le> total_cost b))))"

section \<open>The recipe filters of \<open>app.py\<close>\<close>

definition ALLERGY_KEYWORD_MAP :: "string \<rightharpoonup> string list" where
  "ALLERGY_KEYWORD_MAP = map_of
     [(''legume'', [''bean'', ''beans'', ''lentil'', ''lentils'', ''pea'', ''peas'', ''chickpea'', ''chickpeas'',
                    ''garbanzo'', ''soy'', ''soybean'', ''edamame'', ''black bean'', ''kidney bean'',
                    ''pinto bean'', ''navy bean'', ''lima bean'', ''mung bean'']),
      (''legumes'', [''bean'', ''beans'', ''lentil'', ''lentils'', ''pea'', ''peas'', ''chickpea'', ''chickpeas'',
                     ''garbanzo'', ''soy'', ''soybean'', ''edamame'', ''black bean'', ''kidney bean'',
                     ''pinto bean'', ''navy bean'', ''lima bean'', ''mung bean'']),
      (''peanut'', [''peanut'', ''peanuts'', ''groundnut'']),
      (''peanuts'', [''peanut'', ''peanuts'', ''groundnut'']),
      (''treenut'', [''almond'', ''almonds'', ''walnut'', ''walnuts'', ''cashew'', ''cashews'', ''pecan'', ''pecans'',
                     ''hazelnut'', ''hazelnuts'', ''pistachio'', ''pistachios'', ''brazil nut'', ''macadamia'']),
      (''treenuts'', [''almond'', ''almonds'', ''walnut'', ''walnuts'', ''cashew'', ''cashews'', ''pecan'', ''pecans'',
                      ''hazelnut'', ''hazelnuts'', ''pistachio'', ''pistachios'', ''brazil nut'', ''macadamia'']),
      (''egg'', [''egg'', ''eggs'', ''mayonnaise'', ''mayo'', ''egg white'', ''egg yolk'']),
      (''eggs'', [''egg'', ''eggs'', ''mayonnaise'', ''mayo'', ''egg white'', ''egg yolk'']),
      (''dairy'', [''milk'', ''cheese'', ''butter'', ''yogurt'', ''cream'', ''whey'', ''casein'']),
      (''wheat'', [''wheat'', ''flour'', ''bread'', ''pasta'', ''noodle'', ''noodles'', ''cereal'']),
      (''gluten'', [''wheat'', ''flour'', ''bread'', ''pasta'', ''noodle'', ''noodles'', ''cereal'', ''barley'',
                    ''rye'', ''oats''])]"

text \<open>\<open>ALLERGY_KEYWORD_MAP.get(tag_lower, {tag_lower})\<close> for one tag.\<close>

definition keywords_of_tag :: "string \<Rightarrow> string set" where
  "keywords_of_tag tag =
     (let tag_lower = lower tag
      in case ALLERGY_KEYWORD_MAP tag_lower of Some keywords \<Rightarrow> set keywords | None \<Rightarrow> {tag_lower})"

text \<open>The first loop of \<open>check_recipe_allergens\<close>: \<open>keywords_to_check\<close> after all tags.\<close>

definition keywords_to_check :: "string list \<Rightarrow> string set" where
  "keywords_to_check excluded_tags =
     fold (\<lambda>tag keywords. keywords \<union> keywords_of_tag tag) excluded_tags {}"

text \<open>The second loop: the first line holding a keyword ends it with \<open>False\<close>. The inner loop
  runs over a set, in no fixed order; it returns as soon as some keyword occurs.\<close>

fun scan_lines :: "string set \<Rightarrow> string list \<Rightarrow> bool" where
  "scan_lines keywords [] = True"
| "scan_lines keywords (ingredient_line # rest) =
     (if \<exists>keyword\<in>keywords. str_in keyword (lower ingredient_line) then False
      else scan_lines keywords rest)"

definition check_recipe_allergens :: "string list \<Rightarrow> string list \<Rightarrow> bool" where
  "check_recipe_allergens recipe_ingredients excluded_tags =
     (if excluded_tags = [] then True
      else scan_lines (keywords_to_check excluded_tags) recipe_ingredients)"




section \<open>Properties of the engine\<close>

subsection \<open>The safety filter\<close>

lemma safety_filter_fst:
  "fst (safety_filter data ex) = map (\<lambda>i. if is_safe ex i then attach_tags i else i) data"
  by (induction data) (auto simp: split_beta Let_def)

lemma safety_filter_snd:
  "snd (safety_filter data ex) = map attach_tags (filter (is_safe ex) data)"
  by (induction data) (auto simp: split_beta Let_def)

lemma safety_filter_tagged:
  "item \<in> set (snd (safety_filter data ex)) \<Longrightarrow>
   functional_tags item = Some (get_functional_tags (name item))"
  by (auto simp: safety_filter_snd attach_tags_def)

lemma py_any_iff: "py_any p xs \<longleftrightarrow> (\<exists>x\<in>set xs. p x)"
  by (induction xs) auto

lemma is_safe_iff:
  "is_safe ex i \<longleftrightarrow> set (case allergy_tags i of None \<Rightarrow> [] | Some ts \<Rightarrow> ts) \<inter> set ex = {}"
  by (auto simp: is_safe_def py_any_iff)

subsection \<open>The loops\<close>

lemma combinations_empty: "0 < r \<Longrightarrow> combinations [] r = []"
  by (cases r) simp_all

lemma candidates_empty: "candidates [] max_ingredients = []"
  by (auto simp: candidates_def combinations_empty)


lemma collect_no_survivor:
  "list_all (\<lambda>e. \<not> survives mc mp mf (snd e)) cs \<Longrightarrow> collect mc mp mf cs = Inr []"
  by (induction cs) (auto simp: visit_def split: prod.splits)


lemma collect_enumeration:
  "collect mc mp mf cs = Inr ms \<Longrightarrow>
   list_all2 (\<lambda>e m. \<exists>names. clean_names (snd e) = Inr names \<and> m = make_meal (fst e) (snd e) names)
     (filter (\<lambda>e. survives mc mp mf (snd e)) cs) ms"
proof (induction cs arbitrary: ms)
  case Nil
  then show ?case by simp
next
  case (Cons e cs)
  then show ?case
    by (cases e) (auto simp: visit_def split: sum.splits if_splits option.splits)
qed


subsection \<open>Rounding\<close>




subsection \<open>Ranking\<close>

lemma rank_key_le: "rank_key a \<le> rank_key b \<longleftrightarrow> ranked_before a b"
  by (auto simp: rank_key_def ranked_before_def less_eq_prod_def)

lemma sorted_rank_key: "sorted (map rank_key ms) \<longleftrightarrow> sorted_wrt ranked_before ms"
  by (simp add: sorted_wrt_map rank_key_le)

lemma find_best_meal_Some:
  assumes "snd (find_best_meal data mc mp mf ex maxi) = Inr (Some result)"
  shows "\<exists>valid. collect mc mp mf (candidates (snd (safety_filter data ex)) maxi) = Inr valid \<and>
           valid \<noteq> [] \<and> result = take 5 (sort_key rank_key valid)"
  using assms unfolding find_best_meal_def
  by (auto split: prod.splits sum.splits if_splits)

subsection \<open>Rule A: what the walk excludes\<close>

lemma role_walk_starch_seen:
  "role_walk combo macro functional = (False, result) \<Longrightarrow> ''Starch'' \<in> macro \<Longrightarrow>
   x \<in> set combo \<Longrightarrow> ''Starch'' \<notin> tags_of x"
  by (induction combo macro functional rule: role_walk.induct) (auto split: if_splits)

lemma role_walk_protein_seen:
  "role_walk combo macro functional = (False, result) \<Longrightarrow> ''Protein'' \<in> macro \<Longrightarrow>
   x \<in> set combo \<Longrightarrow> ''Protein'' \<in> tags_of x \<Longrightarrow> ''Starch'' \<in> tags_of x"
  by (induction combo macro functional rule: role_walk.induct) (auto split: if_splits)

lemma role_walk_no_two_starch:
  "role_walk (xs @ a # ys) macro functional = (False, result) \<Longrightarrow> ''Starch'' \<in> tags_of a \<Longrightarrow>
   b \<in> set ys \<Longrightarrow> ''Starch'' \<notin> tags_of b"
proof (induction xs arbitrary: macro functional)
  case Nil
  then show ?case
    by (auto split: if_splits dest: role_walk_starch_seen)
next
  case (Cons x xs)
  then show ?case
    by (auto split: if_splits)
qed

lemma role_walk_no_two_plain_protein:
  "role_walk (xs @ a # ys) macro functional = (False, result) \<Longrightarrow>
   ''Protein'' \<in> tags_of a \<Longrightarrow> ''Starch'' \<notin> tags_of a \<Longrightarrow>
   b \<in> set ys \<Longrightarrow> ''Protein'' \<in> tags_of b \<Longrightarrow> ''Starch'' \<in> tags_of b"
proof (induction xs arbitrary: macro functional)
  case Nil
  then show ?case
    by (auto split: if_splits dest: role_walk_protein_seen)
next
  case (Cons x xs)
  then show ?case
    by (auto split: if_splits)
qed

section \<open>The claims about the engine\<close>

text \<open>
  C1. The claim: no combination returned by \<open>find_best_meal\<close> has two members whose
  functional tags both include Protein, members tagged both Starch and Protein included.
  Rule A tests Protein in the \<open>elif\<close> branch of the Starch test, so a member tagged Starch is
  never counted as a Protein. On the catalog of ``Chicken Fried Rice'' (Protein and Starch)
  and ``Egg'' (Protein) the pair is returned: both members carry the Protein tag.
\<close>

theorem find_best_meal_two_protein:
  "snd (find_best_meal two_protein_catalog 10 0 100 [] 2) =
     Inr (Some [\<lparr>ingredients = [''Chicken Fried Rice'', ''Egg''], total_cost = 75 / 100,
                 total_protein_g = 226 / 10, total_fat_g = 145 / 10, num_ingredients = 2,
                 diversity_score = 2\<rparr>]) \<and>
   map tags_of (snd (safety_filter two_protein_catalog [])) = [{''Protein'', ''Starch''}, {''Protein''}]"
  by code_simp




text \<open>
  C3, as the claim states it: on the example catalog the first-ranked result is the pair
  Chicken and Tomato or the pair Chicken and Rice. The triple Rice, Chicken, Tomato passes all
  filters with diversity score 3 and is ranked first.
\<close>

theorem example_top_is_not_a_pair:
  "top_ingredients (snd (find_best_meal example_catalog 1 15 15 [] 3)) = [''Rice'', ''Chicken'', ''Tomato''] \<and>
   set (top_ingredients (snd (find_best_meal example_catalog 1 15 15 [] 3))) \<noteq> {''Chicken'', ''Tomato''} \<and>
   set (top_ingredients (snd (find_best_meal example_catalog 1 15 15 [] 3))) \<noteq> {''Chicken'', ''Rice''}"
  by code_simp

text \<open>
  C3, amended. On the example catalog the engine returns, in this order, Rice/Chicken/Tomato
  and Rice/Egg/Tomato (diversity 3), then Rice/Chicken, Chicken/Tomato and Rice/Egg
  (diversity 2); no returned combination holds both Egg and Chicken.
\<close>

theorem example_ranking:
  "snd (find_best_meal example_catalog 1 15 15 [] 3) = Inr (Some example_result) \<and>
   filter (\<lambda>m. ''Egg'' \<in> set (ingredients m) \<and> ''Chicken'' \<in> set (ingredients m)) example_result = []"
  by code_simp

text \<open>
  C4. A returned list has at most five entries and is in ranking order: diversity score
  descending, then protein descending, then cost ascending. It is the first five of a
  rearrangement of \<open>valid_meals\<close> in ranking order in which meals of equal key keep the order
  they have in \<open>valid_meals\<close>; and \<open>valid_meals\<close> lists the meals of the surviving combinations in
  the order of enumeration (sizes 2 up to \<open>max_ingredients\<close>, each in the order of
  \<open>itertools.combinations\<close>).
\<close>

theorem find_best_meal_ranked:
  assumes "snd (find_best_meal data max_cost min_protein max_fat excluded_tags max_ingredients) =
             Inr (Some result)"
  shows "length result \<le> 5 \<and> sorted_wrt ranked_before result \<and>
         (\<exists>valid_meals ordered.
            list_all2 (\<lambda>e m. \<exists>names. clean_names (snd e) = Inr names \<and> m = make_meal (fst e) (snd e) names)
              (filter (\<lambda>e. survives max_cost min_protein max_fat (snd e))
                 (candidates (snd (safety_filter data excluded_tags)) max_ingredients))
              valid_meals \<and>
            result = take 5 ordered \<and> mset ordered = mset valid_meals \<and>
            sorted_wrt ranked_before ordered \<and>
            (\<forall>k. filter (\<lambda>m. rank_key m = k) ordered = filter (\<lambda>m. rank_key m = k) valid_meals))"
proof -
  from find_best_meal_Some [OF assms] obtain valid where
    valid: "collect max_cost min_protein max_fat
              (candidates (snd (safety_filter data excluded_tags)) max_ingredients) = Inr valid"
    and result: "result = take 5 (sort_key rank_key valid)"
    by blast
  let ?ordered = "sort_key rank_key valid"
  have ordered: "sorted_wrt ranked_before ?ordered"
    by (rule sorted_rank_key [THEN iffD1, OF sorted_sort_key])
  then have "sorted_wrt ranked_before (take 5 ?ordered)"
    by (rule sorted_wrt_take)
  moreover have "\<forall>k. filter (\<lambda>m. rank_key m = k) ?ordered = filter (\<lambda>m. rank_key m = k) valid"
    by (simp add: sort_key_stable)
  moreover have "mset ?ordered = mset valid"
    by simp
  moreover note collect_enumeration [OF valid] ordered result
  ultimately show ?thesis
    by (intro conjI exI [of _ valid] exI [of _ ?ordered]) simp_all
qed

theorem find_best_meal_ranked_witness:
  "snd (find_best_meal example_catalog 1 15 15 [] 3) = Inr (Some example_result) \<and>
   length example_result \<le> 5 \<and> sorted_wrt ranked_before example_result"
proof -
  have h: "snd (find_best_meal example_catalog 1 15 15 [] 3) = Inr (Some example_result)"
    by code_simp
  from find_best_meal_ranked [OF h] h show ?thesis
    by blast
qed

text \<open>
  C5, as the claim states it: when nothing survives, the engine returns an empty list rather
  than an absent value. On the empty catalog it returns \<open>None\<close>, which is not the empty list.
\<close>

theorem find_best_meal_empty_catalog_none:
  "snd (find_best_meal [] 1 15 15 [] 3) = Inr None \<and>
   snd (find_best_meal [] 1 15 15 [] 3) \<noteq> Inr (Some [])"
  by code_simp

text \<open>
  C5, amended. For the empty catalog, and for every catalog and constraint set under which no
  enumerated combination survives the filters, the engine raises no error and returns the
  absent value \<open>None\<close>.
\<close>

theorem find_best_meal_no_survivor:
  assumes "data = [] \<or>
           list_all (\<lambda>e. \<not> survives max_cost min_protein max_fat (snd e))
             (candidates (snd (safety_filter data excluded_tags)) max_ingredients)"
  shows "snd (find_best_meal data max_cost min_protein max_fat excluded_tags max_ingredients) = Inr None"
proof -
  from assms have "list_all (\<lambda>e. \<not> survives max_cost min_protein max_fat (snd e))
             (candidates (snd (safety_filter data excluded_tags)) max_ingredients)"
    by (auto simp: candidates_empty)
  then have "collect max_cost min_protein max_fat
               (candidates (snd (safety_filter data excluded_tags)) max_ingredients) = Inr []"
    by (rule collect_no_survivor)
  then show ?thesis
    by (cases "safety_filter data excluded_tags") (simp add: find_best_meal_def)
qed

theorem find_best_meal_no_survivor_witness:
  "list_all (\<lambda>e. \<not> survives 1 1000 15 (snd e)) (candidates (snd (safety_filter example_catalog [])) 3) \<and>
   snd (find_best_meal example_catalog 1 1000 15 [] 3) = Inr None"
proof -
  have h: "list_all (\<lambda>e. \<not> survives 1 1000 15 (snd e)) (candidates (snd (safety_filter example_catalog [])) 3)"
    by code_simp
  then have "example_catalog = [] \<or>
     list_all (\<lambda>e. \<not> survives 1 1000 15 (snd e)) (candidates (snd (safety_filter example_catalog [])) 3)"
    by simp
  from find_best_meal_no_survivor [OF this] h show ?thesis
    by simp
qed

text \<open>
  C9. \<open>clean_ingredient_name\<close> is not total: on the empty string, and on the name \<open>", raw"\<close>
  that noise removal empties, indexing the first character raises \<open>IndexError\<close>. A catalog that
  holds such a name in a surviving combination makes \<open>find_best_meal\<close> raise.
\<close>

theorem clean_ingredient_name_raises:
  "clean_ingredient_name '''' = Inl IndexError \<and>
   clean_ingredient_name '', raw'' = Inl IndexError \<and>
   snd (find_best_meal noise_name_catalog 10 0 100 [] 2) = Inl IndexError"
  by code_simp

text \<open>
  C10. \<open>find_best_meal\<close> updates the caller's records: after the call the list has the same
  length; a record whose allergy tags do not meet \<open>excluded_tags\<close> holds the functional tags
  computed from its name; a record that the safety filter drops is unchanged; every other
  field of every record is unchanged.
\<close>

theorem find_best_meal_frame:
  assumes "data' = fst (find_best_meal data max_cost min_protein max_fat excluded_tags max_ingredients)"
  shows "length data' = length data \<and>
         (\<forall>i < length data.
            (set (case allergy_tags (data ! i) of None \<Rightarrow> [] | Some ts \<Rightarrow> ts) \<inter> set excluded_tags = {} \<longrightarrow>
               functional_tags (data' ! i) = Some (get_functional_tags (name (data ! i)))) \<and>
            (set (case allergy_tags (data ! i) of None \<Rightarrow> [] | Some ts \<Rightarrow> ts) \<inter> set excluded_tags \<noteq> {} \<longrightarrow>
               data' ! i = data ! i) \<and>
            name (data' ! i) = name (data ! i) \<and>
            cost_per_100g (data' ! i) = cost_per_100g (data ! i) \<and>
            protein_g (data' ! i) = protein_g (data ! i) \<and>
            carbs_g (data' ! i) = carbs_g (data ! i) \<and>
            fat_g (data' ! i) = fat_g (data ! i) \<and>
            allergy_tags (data' ! i) = allergy_tags (data ! i))"
proof -
  have "data' = map (\<lambda>i. if is_safe excluded_tags i then attach_tags i else i) data"
    using assms safety_filter_fst [of data excluded_tags]
    by (simp add: find_best_meal_def split: prod.splits)
  then show ?thesis
    by (simp add: is_safe_iff attach_tags_def)
qed

theorem find_best_meal_frame_witness:
  "length (fst (find_best_meal example_catalog 1 15 15 [''egg''] 3)) = length example_catalog \<and>
   functional_tags (fst (find_best_meal example_catalog 1 15 15 [''egg''] 3) ! 0) = Some {''Starch''} \<and>
   fst (find_best_meal example_catalog 1 15 15 [''egg''] 3) ! 1 = example_catalog ! 1"
proof -
  have a: "set (case allergy_tags (example_catalog ! 0) of None \<Rightarrow> [] | Some ts \<Rightarrow> ts) \<inter> set [''egg''] = {}"
    by code_simp
  have b: "set (case allergy_tags (example_catalog ! 1) of None \<Rightarrow> [] | Some ts \<Rightarrow> ts) \<inter> set [''egg''] \<noteq> {}"
    by code_simp
  have c: "get_functional_tags (name (example_catalog ! 0)) = {''Starch''}"
    by code_simp
  have l: "0 < length example_catalog" "1 < length example_catalog"
    by (simp_all add: example_catalog_def)
  from find_best_meal_frame [OF refl, of example_catalog 1 15 15 "[''egg'']" 3] a b c l
  show ?thesis
    by auto
qed

section \<open>Properties of the recipe filters\<close>

lemma str_in_sublist: "str_in pat s \<longleftrightarrow> sublist pat s"
  by (induction s) (simp_all add: sublist_Cons_right)


lemma keywords_to_check_fold:
  "fold (\<lambda>tag keywords. keywords \<union> keywords_of_tag tag) tags acc = acc \<union> \<Union> (keywords_of_tag ` set tags)"
  by (induction tags arbitrary: acc) auto

lemma keywords_to_check_set: "keywords_to_check tags = \<Union> (keywords_of_tag ` set tags)"
  by (simp add: keywords_to_check_def keywords_to_check_fold)

lemma scan_lines_iff:
  "scan_lines keywords lines \<longleftrightarrow> \<not> (\<exists>line\<in>set lines. \<exists>keyword\<in>keywords. sublist keyword (lower line))"
  by (induction lines) (auto simp: str_in_sublist)

lemma check_recipe_allergens_iff:
  "check_recipe_allergens lines tags \<longleftrightarrow>
   \<not> (\<exists>line\<in>set lines. \<exists>tag\<in>set tags. \<exists>keyword\<in>keywords_of_tag tag. sublist keyword (lower line))"
  by (auto simp: check_recipe_allergens_def scan_lines_iff keywords_to_check_set)

lemma keywords_of_dairy:
  "keywords_of_tag ''dairy'' = {''milk'', ''cheese'', ''butter'', ''yogurt'', ''cream'', ''whey'', ''casein''}"
  by code_simp



section \<open>The claims about the recipe filters\<close>

text \<open>
  C7. With the single excluded tag \<open>dairy\<close> the allergen filter returns false exactly when
  some ingredient line, lower-cased, contains one of milk, cheese, butter, yogurt, cream, whey,
  casein; whenever \<open>dairy\<close> is among the excluded tags such a line makes it return false; and
  a tag whose lower-cased form is no key of the table is expanded to that lower-cased form as
  its only keyword.
\<close>

theorem check_recipe_allergens_dairy:
  "(check_recipe_allergens recipe_ingredients [''dairy''] \<longleftrightarrow>
      \<not> (\<exists>line\<in>set recipe_ingredients.
           \<exists>keyword\<in>{''milk'', ''cheese'', ''butter'', ''yogurt'', ''cream'', ''whey'', ''casein''}.
             sublist keyword (lower line))) \<and>
   (''dairy'' \<in> set excluded_tags \<longrightarrow>
      (\<exists>line\<in>set recipe_ingredients.
         \<exists>keyword\<in>{''milk'', ''cheese'', ''butter'', ''yogurt'', ''cream'', ''whey'', ''casein''}.
           sublist keyword (lower line)) \<longrightarrow>
      \<not> check_recipe_allergens recipe_ingredients excluded_tags) \<and>
   (ALLERGY_KEYWORD_MAP (lower tag) = None \<longrightarrow>
      keywords_of_tag tag = {lower tag} \<and>
      (check_recipe_allergens recipe_ingredients [tag] \<longleftrightarrow>
         \<not> (\<exists>line\<in>set recipe_ingredients. sublist (lower tag) (lower line))))"
proof (intro conjI impI)
  show "check_recipe_allergens recipe_ingredients [''dairy''] \<longleftrightarrow>
      \<not> (\<exists>line\<in>set recipe_ingredients.
           \<exists>keyword\<in>{''milk'', ''cheese'', ''butter'', ''yogurt'', ''cream'', ''whey'', ''casein''}.
             sublist keyword (lower line))"
    by (simp only: check_recipe_allergens_iff keywords_of_dairy [symmetric]) simp
next
  assume "''dairy'' \<in> set excluded_tags"
    and "\<exists>line\<in>set recipe_ingredients.
         \<exists>keyword\<in>{''milk'', ''cheese'', ''butter'', ''yogurt'', ''cream'', ''whey'', ''casein''}.
           sublist keyword (lower line)"
  then show "\<not> check_recipe_allergens recipe_ingredients excluded_tags"
    unfolding check_recipe_allergens_iff keywords_of_dairy [symmetric] by blast
next
  assume "ALLERGY_KEYWORD_MAP (lower tag) = None"
  then show kw: "keywords_of_tag tag = {lower tag}"
    by (simp add: keywords_of_tag_def)
  show "check_recipe_allergens recipe_ingredients [tag] \<longleftrightarrow>
         \<not> (\<exists>line\<in>set recipe_ingredients. sublist (lower tag) (lower line))"
    by (simp add: check_recipe_allergens_iff kw)
qed

theorem check_recipe_allergens_dairy_witness:
  "''dairy'' \<in> set [''egg'', ''dairy''] \<and>
   sublist ''milk'' (lower ''2 cups Milk'') \<and>
   \<not> check_recipe_allergens [''salt'', ''2 cups Milk''] [''egg'', ''dairy''] \<and>
   ALLERGY_KEYWORD_MAP (lower ''Sesame'') = None \<and>
   keywords_of_tag ''Sesame'' = {''sesame''}"
proof -
  have a: "''dairy'' \<in> set [''egg'', ''dairy'']"
    by simp
  have b: "sublist ''milk'' (lower ''2 cups Milk'')"
    by code_simp
  then have c: "\<exists>line\<in>set [''salt'', ''2 cups Milk''].
      \<exists>keyword\<in>{''milk'', ''cheese'', ''butter'', ''yogurt'', ''cream'', ''whey'', ''casein''}.
        sublist keyword (lower line)"
    by simp
  have d: "ALLERGY_KEYWORD_MAP (lower ''Sesame'') = None"
    by code_simp
  have e: "lower ''Sesame'' = ''sesame''"
    by code_simp
  from check_recipe_allergens_dairy [of "[''salt'', ''2 cups Milk'']" "[''egg'', ''dairy'']" "''Sesame''"]
    a b c d e
  show ?thesis
    by simp
qed



section \<open>Properties of the name cleaner\<close>















section \<open>The claims about the name cleaner\<close>




end
